theory Spec2Isabelle
  imports Main "HOL-Library.AList"
begin

text \<open>
  A model of the Acode tree-sitter plugin: the \<open>Language\<close> handle of \<^verbatim>\<open>language.js\<close>, the
  installer and store of \<^verbatim>\<open>manager.js\<close>, and the facade of \<^verbatim>\<open>api.js\<close>.

  An asynchronous function is modelled by its sequential run: every \<^verbatim>\<open>await\<close> is waited
  for and no other call runs in between. A function that acts on the outside takes the
  state it acts on and returns it, updated, with its result; the answers of the host, the
  network and the parsing engine are parameters. Logging is left out, and the messages of
  errors are written without their quotation marks.
\<close>

section \<open>JavaScript strings and errors\<close>

text \<open>
  Strings are \<^typ>\<open>string\<close>. \<open>startsWith\<close> and \<open>endsWith\<close> are the JavaScript string
  methods of the same names, \<open>stripWasmExt\<close> is \<^verbatim>\<open>s.replace(/\.wasm$/, '')\<close>.
\<close>

definition startsWith :: "string \<Rightarrow> string \<Rightarrow> bool" where
  "startsWith s p = (take (length p) s = p)"

definition endsWith :: "string \<Rightarrow> string \<Rightarrow> bool" where
  "endsWith s p = (length p \<le> length s \<and> drop (length s - length p) s = p)"

definition stripWasmExt :: "string \<Rightarrow> string" where
  "stripWasmExt s =
     (if endsWith s ''.wasm'' then take (length s - length ''.wasm'') s else s)"

text \<open>
  A thrown exception or a rejected promise is a value of type \<open>error\<close>; a function that can
  throw returns \<open>error + 'a\<close>. \<open>Rejected\<close> carries the failures that come from outside
  the plugin (file system, network, engine), with their message.
\<close>

datatype error =
    Error string
  | TypeError string
  | ReferenceError string
  | SyntaxError string
  | Rejected string

fun message :: "error \<Rightarrow> string" where
  "message (Error m) = m"
| "message (TypeError m) = m"
| "message (ReferenceError m) = m"
| "message (SyntaxError m) = m"
| "message (Rejected m) = m"

section \<open>language.js: the Language handle\<close>

text \<open>
  The class is modelled in the revision that passes module contents through
  \<open>_toArrayBuffer\<close>; in a runtime where every content is an ArrayBuffer the conversion is
  the identity, which is the revision that keeps the contents (URLs) as they are.

  The value held by the \<open>#wasm\<close> slot: \<open>Undefined\<close> (\<open>undefined\<close> or \<open>null\<close>), a plain
  object mapping file names to module contents (\<open>Object\<close>, the keys in the order
  \<^verbatim>\<open>Object.keys\<close> and \<^verbatim>\<open>for ... in\<close> enumerate them), or one module content (\<open>Value\<close>).
  The type \<open>'w\<close> of module contents is left open: an ArrayBuffer, a URL, an array of bytes.
\<close>

datatype 'w jsv = Undefined | Object "(string \<times> 'w) list" | Value 'w

text \<open>
  A compiled grammar is an object of the engine: \<open>Grammar n b\<close> is the object made by
  the \<open>n\<close>-th invocation of the loader, from the buffer \<open>b\<close>. Two grammars are the same
  reference iff they are equal.
\<close>

datatype 'w grammar = Grammar nat "'w jsv"

text \<open>
  What the JavaScript runtime and the parsing engine decide: \<^verbatim>\<open>v instanceof ArrayBuffer\<close>,
  \<^verbatim>\<open>new Uint8Array(v).buffer\<close>, the truthiness of a content value, the outcome of
  \<^verbatim>\<open>Parser.Language.load\<close> on its \<open>n\<close>-th invocation, of \<^verbatim>\<open>Parser.init\<close> and of
  \<^verbatim>\<open>parser.setLanguage\<close> (\<open>Some m\<close>: the operation rejects with message \<open>m\<close>).
\<close>

record 'w runtime =
  isArrayBuffer :: "'w \<Rightarrow> bool"
  uint8Buffer :: "'w jsv \<Rightarrow> 'w"
  truthy :: "'w \<Rightarrow> bool"
  loadRejects :: "nat \<Rightarrow> 'w jsv \<Rightarrow> string option"
  parserInitRejects :: "string option"
  setLanguageRejects :: "'w grammar \<Rightarrow> string option"

type_synonym config = string
type_synonym queries = "(string \<times> string) list"

text \<open>
  The private fields of \<^verbatim>\<open>class Language\<close>. \<open>extensions\<close> is \<open>None\<close> for \<open>null\<close> and
  \<open>Some m\<close> for an object with the properties \<open>m\<close>; what an object inherits from its
  prototype is not modelled, and the key \<open>__proto__\<close> is a key like any other.
\<close>

datatype 'w language =
  Language (name: string) (config: config) (wasm: "'w jsv") (queries: queries)
    (grammar: "'w grammar option") (extensions: "(string \<rightharpoonup> 'w language) option")

fun with_wasm :: "'w jsv \<Rightarrow> 'w language \<Rightarrow> 'w language" where
  "with_wasm w (Language n c _ q g e) = Language n c w q g e"

fun with_grammar :: "'w grammar option \<Rightarrow> 'w language \<Rightarrow> 'w language" where
  "with_grammar g (Language n c w q _ e) = Language n c w q g e"

fun with_extensions :: "(string \<rightharpoonup> 'w language) option \<Rightarrow> 'w language \<Rightarrow> 'w language" where
  "with_extensions e (Language n c w q g _) = Language n c w q g e"


definition isLoaded :: "'w language \<Rightarrow> bool" where
  "isLoaded h = (grammar h \<noteq> None)"

text \<open>\<^verbatim>\<open>_toArrayBuffer(v)\<close>: \<^verbatim>\<open>v instanceof ArrayBuffer ? v : new Uint8Array(v).buffer\<close>.\<close>

definition toArrayBuffer :: "'w runtime \<Rightarrow> 'w jsv \<Rightarrow> 'w jsv" where
  "toArrayBuffer rt v =
     (case v of
        Value x \<Rightarrow> if isArrayBuffer rt x then v else Value (uint8Buffer rt v)
      | _ \<Rightarrow> Value (uint8Buffer rt v))"

text \<open>The truthiness of the \<open>#wasm\<close> slot, as \<^verbatim>\<open>!this.#wasm\<close> tests it.\<close>

definition jsTruthy :: "'w runtime \<Rightarrow> 'w jsv \<Rightarrow> bool" where
  "jsTruthy rt v = (case v of Undefined \<Rightarrow> False | Object _ \<Rightarrow> True | Value x \<Rightarrow> truthy rt x)"

text \<open>\<^verbatim>\<open>#getNameFromFilename(filename)\<close>.\<close>

definition getNameFromFilename :: "string \<Rightarrow> string" where
  "getNameFromFilename filename =
     (let nameWithoutExt = stripWasmExt filename in
      if startsWith nameWithoutExt ''tree-sitter-''
      then drop (length ''tree-sitter-'') nameWithoutExt
      else nameWithoutExt)"

text \<open>
  The field initialisation of the constructor (all of it when \<open>isExtension\<close> is true):
  the grammar is \<open>null\<close>, the extensions are \<open>null\<close> for an extension and \<open>{}\<close> otherwise.
\<close>

definition initFields :: "string \<Rightarrow> config \<Rightarrow> 'w jsv \<Rightarrow> queries \<Rightarrow> bool \<Rightarrow> 'w language" where
  "initFields n c w q isExt = Language n c w q None (if isExt then None else Some Map.empty)"

text \<open>
  \<^verbatim>\<open>Object.keys(this.#wasm)\<close> throws on \<open>undefined\<close>; a single content value is taken to
  have no own enumerable keys (an ArrayBuffer has none).
\<close>

definition objectKeys :: "'w jsv \<Rightarrow> error + string list" where
  "objectKeys v =
     (case v of
        Undefined \<Rightarrow> Inl (TypeError ''Cannot convert undefined or null to object'')
      | Object m \<Rightarrow> Inr (map fst m)
      | Value _ \<Rightarrow> Inr [])"

definition objectEntries :: "'w jsv \<Rightarrow> (string \<times> 'w) list" where
  "objectEntries v = (case v of Object m \<Rightarrow> m | _ \<Rightarrow> [])"

text \<open>\<^verbatim>\<open>wasm[filename]\<close> for a key of the object.\<close>

definition getProp :: "(string \<times> 'w) list \<Rightarrow> string \<Rightarrow> 'w jsv" where
  "getProp m k = (case map_of m k of None \<Rightarrow> Undefined | Some x \<Rightarrow> Value x)"

text \<open>
  The \<^verbatim>\<open>for (const filename in wasm)\<close> loop of \<open>#initializeExtensions\<close>: the main file is
  skipped, every other file becomes \<^verbatim>\<open>new Language(extName, config, wasmBinary, queries, true)\<close>
  stored under \<open>extName\<close>. With \<open>isExtension = true\<close> the constructor only initialises the
  fields, so the nested construction is \<open>initFields\<close>. Writing a property of \<open>null\<close> throws.
\<close>

fun extensionLoop ::
  "'w runtime \<Rightarrow> string option \<Rightarrow> (string \<times> 'w) list \<Rightarrow> 'w language \<Rightarrow> error + 'w language" where
  "extensionLoop rt mainFile [] h = Inr h"
| "extensionLoop rt mainFile ((filename, x) # rest) h =
     (if Some filename = mainFile then extensionLoop rt mainFile rest h
      else
        let extName = getNameFromFilename filename;
            wasmBinary = toArrayBuffer rt (Value x);
            ext = initFields extName (config h) wasmBinary (queries h) True
        in case extensions h of
             None \<Rightarrow> Inl (TypeError ''Cannot set properties of null'')
           | Some m \<Rightarrow> extensionLoop rt mainFile rest (with_extensions (Some (m(extName \<mapsto> ext))) h))"

text \<open>
  \<open>#initializeExtensions()\<close>: \<open>mainFile\<close> is the first key whose derived name is the handle's
  name; \<^verbatim>\<open>if (mainFile)\<close> holds for a key that is found and is not the empty string.
\<close>

definition findMainFile :: "string \<Rightarrow> string list \<Rightarrow> string option" where
  "findMainFile n keys = find (\<lambda>filename. getNameFromFilename filename = n) keys"

definition initializeExtensions :: "'w runtime \<Rightarrow> 'w language \<Rightarrow> error + 'w language" where
  "initializeExtensions rt h =
     (case objectKeys (wasm h) of
        Inl e \<Rightarrow> Inl e
      | Inr keys \<Rightarrow>
          let entries = objectEntries (wasm h);
              mainFile = findMainFile (name h) keys;
              h1 = (case mainFile of
                      None \<Rightarrow> h
                    | Some f \<Rightarrow> if f \<noteq> [] then with_wasm (toArrayBuffer rt (getProp entries f)) h else h)
          in extensionLoop rt mainFile entries h1)"

text \<open>\<^verbatim>\<open>new Language(name, config, wasm, queries, isExtension)\<close>.\<close>

definition newLanguage ::
  "'w runtime \<Rightarrow> string \<Rightarrow> config \<Rightarrow> 'w jsv \<Rightarrow> queries \<Rightarrow> bool \<Rightarrow> error + 'w language" where
  "newLanguage rt n c w q isExt =
     (let h = initFields n c w q isExt in
      if \<not> isExt then initializeExtensions rt h else Inr h)"

text \<open>
  The handle that the loop constructs for the file \<open>f\<close> with content \<open>x\<close>, paired with the
  key it is stored under.
\<close>

definition extensionOf :: "'w runtime \<Rightarrow> config \<Rightarrow> queries \<Rightarrow> string \<times> 'w \<Rightarrow> string \<times> 'w language" where
  "extensionOf rt c q =
     (\<lambda>(f, x). (getNameFromFilename f,
                 Language (getNameFromFilename f) c (toArrayBuffer rt (Value x)) q None None))"

text \<open>\<open>getQuery(queryName)\<close>: the content stored under \<^verbatim>\<open>queryName + '.scm'\<close>, if truthy.\<close>

definition getQuery :: "'w language \<Rightarrow> string \<Rightarrow> string option" where
  "getQuery h queryName =
     (case map_of (queries h) (queryName @ ''.scm'') of
        None \<Rightarrow> None
      | Some s \<Rightarrow> if s \<noteq> [] then Some s else None)"

text \<open>
  \<open>loadGrammar()\<close>. The state of the engine is the list of buffers its loader was invoked
  on, in order; the function returns the handle and that list, updated, and the result.
\<close>

definition loadGrammar ::
  "'w runtime \<Rightarrow> 'w language \<Rightarrow> 'w jsv list \<Rightarrow> 'w language \<times> 'w jsv list \<times> (error + 'w grammar)" where
  "loadGrammar rt h calls =
     (case grammar h of
        Some g \<Rightarrow> (h, calls, Inr g)
      | None \<Rightarrow>
          if \<not> jsTruthy rt (wasm h)
          then (h, calls, Inl (Error (''No WASM file available for language '' @ name h)))
          else
            (let wasmBuffer = toArrayBuffer rt (wasm h) in
             (case loadRejects rt (length calls) wasmBuffer of
                Some m \<Rightarrow>
                  (h, calls @ [wasmBuffer],
                   Inl (Error (''Failed to load grammar for language '' @ name h @ '': '' @ m)))
              | None \<Rightarrow>
                  (let g = Grammar (length calls) wasmBuffer in
                   (with_grammar (Some g) h, calls @ [wasmBuffer], Inr g)))))"

text \<open>\<open>unloadGrammar()\<close>: the handle after the call, and the value returned.\<close>

definition unloadGrammar :: "'w language \<Rightarrow> 'w language \<times> bool" where
  "unloadGrammar h = (with_grammar None h, True)"

section \<open>The host's file system and the registry\<close>

text \<open>
  The storage directory \<^verbatim>\<open>TREE_SITTER_PATH\<close> is a tree; a path is the list of names from
  that directory down. A directory lists its entries in the order \<^verbatim>\<open>lsDir\<close> returns them.
\<close>

type_synonym content = string
type_synonym path = "string list"

text \<open>
  The package directory of \<open>lang\<close> is \<^verbatim>\<open>Url.join(Api.TREE_SITTER_PATH, lang)\<close>, and
  \<^verbatim>\<open>Url.join\<close> is the host's path join. For an id that is one path segment (\<open>segment\<close>:
  not empty, without a separator, and neither \<open>.\<close> nor \<open>..\<close>) the joined path is the entry
  \<open>lang\<close> of the storage directory, the path \<open>[lang]\<close>, and this is how \<open>langPath\<close> is read
  in the manager's functions below. An id of another form is joined to another place
  (the empty id to the storage directory itself, \<open>json/queries\<close> to a directory inside the
  package \<open>json\<close>); what the functions do there is outside this reading, and the
  properties that depend on the place are stated for ids that are one segment.
\<close>

definition segment :: "string \<Rightarrow> bool" where
  "segment s = (s \<noteq> [] \<and> CHR ''/'' \<notin> set s \<and> s \<noteq> ''.'' \<and> s \<noteq> ''..'')"

datatype node = File content | Dir "(string \<times> node) list"

fun lookup :: "node \<Rightarrow> path \<Rightarrow> node option" where
  "lookup n [] = Some n"
| "lookup (File _) (s # p) = None"
| "lookup (Dir es) (s # p) = (case map_of es s of None \<Rightarrow> None | Some c \<Rightarrow> lookup c p)"

definition existsPath :: "node \<Rightarrow> path \<Rightarrow> bool" where
  "existsPath root p = (lookup root p \<noteq> None)"

text \<open>
  \<open>putAt root dir nm x\<close> makes \<open>x\<close> the entry \<open>nm\<close> of the directory at \<open>dir\<close>;
  \<open>removeAt root p\<close> removes the entry at \<open>p\<close> with everything below it. Both are \<open>None\<close>
  when the place does not exist.
\<close>

fun putAt :: "node \<Rightarrow> path \<Rightarrow> string \<Rightarrow> node \<Rightarrow> node option" where
  "putAt (File _) _ _ _ = None"
| "putAt (Dir es) [] nm x = Some (Dir (AList.update nm x es))"
| "putAt (Dir es) (s # p) nm x =
     (case map_of es s of
        None \<Rightarrow> None
      | Some c \<Rightarrow>
          (case putAt c p nm x of
             None \<Rightarrow> None
           | Some c' \<Rightarrow> Some (Dir (AList.update s c' es))))"

fun removeAt :: "node \<Rightarrow> path \<Rightarrow> node option" where
  "removeAt n [] = None"
| "removeAt (File _) (s # p) = None"
| "removeAt (Dir es) [s] =
     (case map_of es s of None \<Rightarrow> None | Some _ \<Rightarrow> Some (Dir (AList.delete s es)))"
| "removeAt (Dir es) (s # t # p) =
     (case map_of es s of
        None \<Rightarrow> None
      | Some c \<Rightarrow>
          (case removeAt c (t # p) of
             None \<Rightarrow> None
           | Some c' \<Rightarrow> Some (Dir (AList.update s c' es))))"


text \<open>
  What the plugin can observe of the outside: the storage tree and the requests sent to
  the network, in order.
\<close>

record world =
  fs :: node
  requests :: "string list"

text \<open>
  The manifest as \<^verbatim>\<open>JSON.parse(response.data)\<close> yields it. An entry of \<open>files\<close> is its
  \<open>path\<close>, \<open>None\<close> when the entry has no string \<open>path\<close>; \<open>prefix\<close> and \<open>version\<close> are
  \<open>None\<close> when \<open>undefined\<close>.
\<close>

record meta =
  files :: "string option list"
  prefix :: "string option"
  version :: "string option"

datatype parsed =
    Unparsable string   \<comment> \<open>\<^verbatim>\<open>JSON.parse\<close> throws\<close>
  | NoFiles             \<comment> \<open>a falsy value, or an object whose \<open>files\<close> is falsy\<close>
  | FilesNotArray       \<comment> \<open>\<open>files\<close> is truthy and has no \<open>filter\<close> method\<close>
  | Manifest meta

record response =
  status :: int
  data :: string

text \<open>
  How the outside answers. Every operation of the host's file system can reject, with a
  message, depending on the tree and its arguments (\<open>Some m\<close>: it rejects); \<open>httpGet\<close> is
  \<^verbatim>\<open>cordova.plugin.http.get\<close>; \<open>readRemote url type\<close> is \<^verbatim>\<open>fs(url).readFile(type)\<close> raced
  against the 30 s timer: \<open>Inl m\<close> when either rejects, \<open>Inr None\<close> for a \<open>null\<close> content.
\<close>

record env =
  createDirectoryRejects :: "node \<Rightarrow> path \<Rightarrow> string \<Rightarrow> string option"
  createFileRejects :: "node \<Rightarrow> path \<Rightarrow> string \<Rightarrow> string option"
  deleteRejects :: "node \<Rightarrow> path \<Rightarrow> string option"
  httpGet :: "string \<Rightarrow> string + response"
  jsonParse :: "string \<Rightarrow> parsed"
  readRemote :: "string \<Rightarrow> string option \<Rightarrow> string + content option"

text \<open>
  \<^verbatim>\<open>fs(dir).createDirectory(nm)\<close>, \<^verbatim>\<open>fs(dir).createFile(nm, content)\<close> and \<^verbatim>\<open>fs(p).delete()\<close>.
  An operation that the host rejects leaves the tree as it is; one that it accepts
  replaces an entry of the same name, and fails where the directory is missing.
\<close>

definition createDirectory :: "env \<Rightarrow> path \<Rightarrow> string \<Rightarrow> world \<Rightarrow> world \<times> (error + unit)" where
  "createDirectory ev dir nm w =
     (case createDirectoryRejects ev (fs w) dir nm of
        Some m \<Rightarrow> (w, Inl (Rejected m))
      | None \<Rightarrow>
          (case putAt (fs w) dir nm (Dir []) of
             None \<Rightarrow> (w, Inl (Rejected ''no such directory''))
           | Some root \<Rightarrow> (w\<lparr>fs := root\<rparr>, Inr ())))"

definition createFile :: "env \<Rightarrow> path \<Rightarrow> string \<Rightarrow> content \<Rightarrow> world \<Rightarrow> world \<times> (error + unit)" where
  "createFile ev dir nm c w =
     (case createFileRejects ev (fs w) dir nm of
        Some m \<Rightarrow> (w, Inl (Rejected m))
      | None \<Rightarrow>
          (case putAt (fs w) dir nm (File c) of
             None \<Rightarrow> (w, Inl (Rejected ''no such directory''))
           | Some root \<Rightarrow> (w\<lparr>fs := root\<rparr>, Inr ())))"

definition deletePath :: "env \<Rightarrow> path \<Rightarrow> world \<Rightarrow> world \<times> (error + unit)" where
  "deletePath ev p w =
     (case deleteRejects ev (fs w) p of
        Some m \<Rightarrow> (w, Inl (Rejected m))
      | None \<Rightarrow>
          (case removeAt (fs w) p of
             None \<Rightarrow> (w, Inl (Rejected ''no such file or directory''))
           | Some root \<Rightarrow> (w\<lparr>fs := root\<rparr>, Inr ())))"

text \<open>
  The host's \<^verbatim>\<open>Url\<close> helpers on strings: \<open>urlJoin\<close> puts one separator between its two
  parts, \<open>basename\<close> is what follows the last separator, \<open>extname\<close> runs from the last dot
  of a name.
\<close>

definition urlJoin :: "string \<Rightarrow> string \<Rightarrow> string" where
  "urlJoin a b =
     (if b = [] then a
      else (if endsWith a ''/'' then a else a @ ''/'') @ (if startsWith b ''/'' then drop 1 b else b))"

definition basename :: "string \<Rightarrow> string" where
  "basename url = rev (takeWhile (\<lambda>c. c \<noteq> CHR ''/'') (rev url))"

definition extname :: "string \<Rightarrow> string" where
  "extname filename =
     (if CHR ''.'' \<in> set filename
      then CHR ''.'' # rev (takeWhile (\<lambda>c. c \<noteq> CHR ''.'') (rev filename))
      else [])"

section \<open>The pattern matcher\<close>

text \<open>
  Modelled from the spec: \<open>minimatch\<close> is the glob matcher of the npm package of that name,
  which is not part of the sources. The spec gives it "standard single-segment glob
  semantics (\<open>*\<close> does not cross path separators)" and, for a pattern without \<open>*\<close>,
  equality of path and pattern: a \<open>*\<close> matches any run of characters other than the
  separator, every other character matches itself.
\<close>

fun minimatch :: "string \<Rightarrow> string \<Rightarrow> bool" where
  "minimatch [] [] = True"
| "minimatch (c # cs) [] = False"
| "minimatch [] (p # ps) = (p = CHR ''*'' \<and> minimatch [] ps)"
| "minimatch (c # cs) (p # ps) =
     (if p = CHR ''*''
      then minimatch (c # cs) ps \<or> (c \<noteq> CHR ''/'' \<and> minimatch cs (p # ps))
      else c = p \<and> minimatch cs ps)"

text \<open>
  The test of the \<^verbatim>\<open>filter\<close> callback of \<open>_download\<close> on a path whose prefix is already
  stripped: a pattern that ends with the separator is a directory pattern and is tested
  with \<open>startsWith\<close>, any other pattern goes to \<open>minimatch\<close>.
\<close>

definition matchFile :: "bool \<Rightarrow> string \<Rightarrow> string \<Rightarrow> bool" where
  "matchFile isDirectory path pat =
     (if isDirectory then startsWith path pat else minimatch path pat)"

definition matches :: "string \<Rightarrow> string \<Rightarrow> bool" where
  "matches path pat = matchFile (endsWith pat ''/'') path pat"

section \<open>manager.js\<close>

definition CDN_URL :: string where
  "CDN_URL = ''https://unpkg.com/''"

text \<open>\<open>buildUrl(lang, path, version)\<close>; the defaults of the source are passed by the callers.\<close>

definition buildUrl :: "string \<Rightarrow> string \<Rightarrow> string \<Rightarrow> string" where
  "buildUrl lang path ver = urlJoin (urlJoin CDN_URL (''tree-sitter-'' @ lang @ ''@'' @ ver)) path"

definition fetch :: "env \<Rightarrow> string \<Rightarrow> world \<Rightarrow> world \<times> (string + response)" where
  "fetch ev url w = (w\<lparr>requests := requests w @ [url]\<rparr>, httpGet ev url)"

text \<open>\<open>_getFileType(ext)\<close>: \<open>None\<close> is the \<open>null\<close> that stands for a binary read.\<close>

definition getFileType :: "string \<Rightarrow> string option" where
  "getFileType ext =
     (if ext = ''.json'' then Some ''json''
      else if ext = ''.wasm'' then None
      else Some ''utf-8'')"

text \<open>\<open>_downloadFile(url, folder)\<close>: the path of the file written.\<close>

definition downloadFile :: "env \<Rightarrow> string \<Rightarrow> path \<Rightarrow> world \<Rightarrow> world \<times> (error + path)" where
  "downloadFile ev url folder w =
     (let filename = basename url;
          ext = extname filename;
          type = getFileType ext;
          w1 = w\<lparr>requests := requests w @ [url]\<rparr>
      in case readRemote ev url type of
           Inl m \<Rightarrow> (w1, Inl (Rejected m))
         | Inr None \<Rightarrow> (w1, Inl (Error (''Empty content from '' @ url)))
         | Inr (Some c) \<Rightarrow>
             (case createFile ev folder filename c w1 of
                (w2, Inl e) \<Rightarrow> (w2, Inl e)
              | (w2, Inr _) \<Rightarrow> (w2, Inr (folder @ [filename]))))"

text \<open>
  The \<^verbatim>\<open>filter\<close> over \<open>globalMeta.files\<close>: an entry without a path, or a manifest without
  a prefix, makes the callback throw at the first entry it reaches.
\<close>

fun filterFiles :: "string option \<Rightarrow> string \<Rightarrow> bool \<Rightarrow> string option list \<Rightarrow> error + string list" where
  "filterFiles pre pat isDirectory [] = Inr []"
| "filterFiles pre pat isDirectory (f # rest) =
     (case f of
        None \<Rightarrow> Inl (TypeError ''Cannot read properties of undefined (reading slice)'')
      | Some filePath \<Rightarrow>
          (case pre of
             None \<Rightarrow> Inl (TypeError ''Cannot read properties of undefined (reading length)'')
           | Some pr \<Rightarrow>
               (let path = drop (length pr) filePath in
                case filterFiles pre pat isDirectory rest of
                  Inl e \<Rightarrow> Inl e
                | Inr r \<Rightarrow> Inr (if matchFile isDirectory path pat then filePath # r else r))))"

definition matchingFiles :: "parsed \<Rightarrow> string \<Rightarrow> bool \<Rightarrow> error + string list" where
  "matchingFiles globalMeta pat isDirectory =
     (case globalMeta of
        Manifest m \<Rightarrow> filterFiles (prefix m) pat isDirectory (files m)
      | _ \<Rightarrow> Inl (TypeError ''globalMeta.files.filter is not a function''))"

definition metaVersion :: "parsed \<Rightarrow> string" where
  "metaVersion globalMeta =
     (case globalMeta of
        Manifest m \<Rightarrow> (case version m of None \<Rightarrow> ''latest'' | Some v \<Rightarrow> v)
      | _ \<Rightarrow> ''latest'')"

text \<open>The inner loop of \<open>_download\<close>, over the matching files of one item.\<close>

fun downloadFiles :: "env \<Rightarrow> string \<Rightarrow> path \<Rightarrow> string list \<Rightarrow> world \<Rightarrow> world \<times> (error + unit)" where
  "downloadFiles ev baseUrl dst [] w = (w, Inr ())"
| "downloadFiles ev baseUrl dst (filePath # rest) w =
     (let fileUrl = urlJoin baseUrl filePath in
      case downloadFile ev fileUrl dst w of
        (w1, Inl e) \<Rightarrow> (w1, Inl e)
      | (w1, Inr _) \<Rightarrow> downloadFiles ev baseUrl dst rest w1)"

record item =
  pattern :: string
  dest :: path

text \<open>
  The outer loop of \<open>_download\<close>, over the items. For a directory pattern the directory
  \<^verbatim>\<open>pattern.slice(0, -1)\<close> is created under \<open>dest\<close> and becomes the destination.
\<close>

fun downloadItems :: "env \<Rightarrow> string \<Rightarrow> parsed \<Rightarrow> item list \<Rightarrow> world \<Rightarrow> world \<times> (error + unit)" where
  "downloadItems ev lang globalMeta [] w = (w, Inr ())"
| "downloadItems ev lang globalMeta (it # rest) w =
     (let pat = pattern it;
          isDirectory = endsWith pat ''/'';
          made = (if isDirectory
                  then (case createDirectory ev (dest it) (butlast pat) w of
                          (w1, Inl e) \<Rightarrow> (w1, Inl e)
                        | (w1, Inr _) \<Rightarrow> (w1, Inr (dest it @ [butlast pat])))
                  else (w, Inr (dest it)))
      in case made of
           (w1, Inl e) \<Rightarrow> (w1, Inl e)
         | (w1, Inr dst) \<Rightarrow>
             (case matchingFiles globalMeta pat isDirectory of
                Inl e \<Rightarrow> (w1, Inl e)
              | Inr matching \<Rightarrow>
                  (let baseUrl = buildUrl lang [] (metaVersion globalMeta) in
                   case downloadFiles ev baseUrl dst matching w1 of
                     (w2, Inl e) \<Rightarrow> (w2, Inl e)
                   | (w2, Inr _) \<Rightarrow> downloadItems ev lang globalMeta rest w2)))"

text \<open>
  \<open>_download(lang, items)\<close>. The message of the error thrown for a manifest without
  \<open>files\<close> interpolates \<open>baseUrl\<close>, which is declared only inside the loop: evaluating it
  throws a ReferenceError instead.
\<close>

definition download :: "env \<Rightarrow> string \<Rightarrow> item list \<Rightarrow> world \<Rightarrow> world \<times> (error + bool)" where
  "download ev lang items w =
     (let metaUrl = buildUrl lang [] ''latest'' @ ''?meta'' in
      case fetch ev metaUrl w of
        (w1, Inl m) \<Rightarrow> (w1, Inl (Rejected m))
      | (w1, Inr resp) \<Rightarrow>
          if status resp \<noteq> 200
          then (w1, Inl (Error ''failed while fetch metadata, code:''))
          else
            (case jsonParse ev (data resp) of
               Unparsable m \<Rightarrow> (w1, Inl (SyntaxError m))
             | NoFiles \<Rightarrow> (w1, Inl (ReferenceError ''baseUrl is not defined''))
             | globalMeta \<Rightarrow>
                 (case downloadItems ev lang globalMeta items w1 of
                    (w2, Inl e) \<Rightarrow> (w2, Inl e)
                  | (w2, Inr _) \<Rightarrow> (w2, Inr True))))"

text \<open>
  \<open>isLanguageAvailable(lang)\<close>: whether \<open>langPath\<close> exists, with \<open>langPath\<close> the joined
  path of an id that is one segment.
\<close>

definition isLanguageAvailable :: "world \<Rightarrow> string \<Rightarrow> bool" where
  "isLanguageAvailable w lang = (let langPath = [lang] in existsPath (fs w) langPath)"

text \<open>
  \<open>installLanguage(lang)\<close>. \<open>cleanUp\<close> is its \<^verbatim>\<open>catch\<close> block: the package directory is
  deleted if it exists, and the error is thrown again; a deletion that rejects throws its
  own error.
\<close>

definition cleanUp :: "env \<Rightarrow> path \<Rightarrow> error \<Rightarrow> world \<Rightarrow> world \<times> (error + bool)" where
  "cleanUp ev langPath e w =
     (if existsPath (fs w) langPath
      then (case deletePath ev langPath w of
              (w1, Inl e') \<Rightarrow> (w1, Inl e')
            | (w1, Inr _) \<Rightarrow> (w1, Inl e))
      else (w, Inl e))"

definition installLanguage :: "env \<Rightarrow> string \<Rightarrow> world \<Rightarrow> world \<times> (error + bool)" where
  "installLanguage ev lang w =
     (let langPath = [lang] in
      if existsPath (fs w) langPath then (w, Inr False)
      else
        (case createDirectory ev [] lang w of
           (w1, Inl e) \<Rightarrow> cleanUp ev langPath e w1
         | (w1, Inr _) \<Rightarrow>
             (let filesToDownload =
                    [\<lparr>pattern = ''tree-sitter.json'', dest = langPath\<rparr>,
                     \<lparr>pattern = ''*.wasm'', dest = langPath\<rparr>,
                     \<lparr>pattern = ''queries/'', dest = langPath\<rparr>]
              in case download ev lang filesToDownload w1 of
                   (w2, Inl e) \<Rightarrow> cleanUp ev langPath e w2
                 | (w2, Inr success) \<Rightarrow> (w2, Inr success))))"

text \<open>
  \<open>uninstallLanguage(lang)\<close>, with \<open>langPath\<close> the joined path of an id that is one
  segment. The \<^verbatim>\<open>catch (e)\<close> block reads \<open>error.message\<close>, and no \<open>error\<close> is in scope
  there: the block throws a ReferenceError.
\<close>

definition uninstallLanguage :: "env \<Rightarrow> string \<Rightarrow> world \<Rightarrow> world \<times> (error + bool)" where
  "uninstallLanguage ev lang w =
     (let langPath = [lang] in
      if \<not> existsPath (fs w) langPath then (w, Inr False)
      else
        (case deletePath ev langPath w of
           (w1, Inr _) \<Rightarrow> (w1, Inr True)
         | (w1, Inl e) \<Rightarrow> (w1, Inl (ReferenceError ''error is not defined''))))"

text \<open>
  \<open>getLanguage(lang)\<close> of the manager reads the package directory and constructs the
  handle. An entry of a listing is its name and its node; its \<open>url\<close> is \<open>urlOf\<close> of its
  path, and module contents are these URLs. \<open>None\<close> is the \<open>undefined\<close> returned for a
  package that does not exist.
\<close>

definition urlOf :: "path \<Rightarrow> string" where
  "urlOf p = foldl urlJoin ''tree-sitter'' p"

definition isDirectoryNode :: "node \<Rightarrow> bool" where
  "isDirectoryNode x = (case x of Dir _ \<Rightarrow> True | File _ \<Rightarrow> False)"

definition lsDir :: "node \<Rightarrow> path \<Rightarrow> error + (string \<times> node) list" where
  "lsDir root p =
     (case lookup root p of
        Some (Dir es) \<Rightarrow> Inr es
      | _ \<Rightarrow> Inl (Rejected ''not a directory''))"

definition readNode :: "node \<Rightarrow> error + content" where
  "readNode x = (case x of File c \<Rightarrow> Inr c | Dir _ \<Rightarrow> Inl (Rejected ''not a file''))"

definition readQueries :: "(string \<times> node) list \<Rightarrow> queries" where
  "readQueries queryFiles =
     concat (map (\<lambda>(nm, x). case x of File c \<Rightarrow> if endsWith nm ''.scm'' then [(nm, c)] else []
                                   | Dir _ \<Rightarrow> []) queryFiles)"

definition loadPackage :: "string runtime \<Rightarrow> world \<Rightarrow> string \<Rightarrow> error + string language" where
  "loadPackage rt w lang =
     (let langPath = [lang] in
      case lsDir (fs w) langPath of
        Inl e \<Rightarrow> Inl e
      | Inr entries \<Rightarrow>
          (case find (\<lambda>(nm, x). nm = ''tree-sitter.json'') entries of
             None \<Rightarrow> Inl (Error (''Missing tree-sitter.json for language '' @ lang))
           | Some (_, configFile) \<Rightarrow>
               (case readNode configFile of
                  Inl e \<Rightarrow> Inl e
                | Inr cfg \<Rightarrow>
                    (let wasmFiles =
                           foldl (\<lambda>obj (nm, x). AList.update nm (urlOf (langPath @ [nm])) obj) []
                             (filter (\<lambda>(nm, x). endsWith nm ''.wasm'') entries);
                         queriesDir = find (\<lambda>(nm, x). nm = ''queries'' \<and> isDirectoryNode x) entries;
                         qs = (case queriesDir of
                                 Some (_, Dir queryFiles) \<Rightarrow> readQueries queryFiles
                               | _ \<Rightarrow> [])
                     in newLanguage rt lang cfg (Object wasmFiles) qs False))))"

definition Manager_getLanguage ::
  "string runtime \<Rightarrow> world \<Rightarrow> string \<Rightarrow> error + string language option" where
  "Manager_getLanguage rt w lang =
     (let langPath = [lang] in
      if \<not> existsPath (fs w) langPath then Inr None
      else
        (case loadPackage rt w lang of
           Inl e \<Rightarrow> Inl (Error (''Failed to load language '' @ lang @ '': '' @ message e))
         | Inr h \<Rightarrow> Inr (Some h)))"

section \<open>api.js: the facade\<close>

datatype event =
    Initialized
  | ErrorEvent error
  | LanguageInstalled string
  | LanguageUninstalled string

text \<open>
  A parser is an object of the engine, \<open>Parser n g\<close> the \<open>n\<close>-th one constructed, bound to
  the grammar \<open>g\<close>; a syntax tree is the parser and the code it was made from.
\<close>

datatype 'w parser = Parser nat "'w grammar"
datatype 'w tree = Tree "'w parser" string

text \<open>
  The initialisation started by the constructor is \<open>Pending\<close> until it is first awaited,
  then \<open>Settled\<close> with the value the promise resolves to.
\<close>

datatype init = Pending | Settled bool

text \<open>
  The state of \<open>TreeSitterAPI\<close>, with the outside it acts on: \<open>parsers\<close> is \<open>#parser\<close>,
  \<open>languages\<close> is \<open>#languages\<close>, \<open>events\<close> are the events emitted so far, \<open>loaderCalls\<close>
  the buffers given to the engine's loader and \<open>parsersMade\<close> the number of parsers
  constructed.
\<close>

record api =
  world :: world
  loaderCalls :: "string jsv list"
  parsersMade :: nat
  parsers :: "string \<rightharpoonup> string parser"
  languages :: "string \<rightharpoonup> string language"
  initState :: init
  apiConfig :: content
  events :: "event list"

text \<open>
  An options object: \<open>forceReload\<close> is \<open>None\<close> when the object has no such property, so
  \<open>emptyOptions\<close> is \<^verbatim>\<open>{}\<close>. \<open>bindForceReload\<close> binds the parameter pattern
  \<^verbatim>\<open>{ forceReload = false }\<close> to an argument, \<open>None\<close> being the argument that is not passed:
  destructuring \<open>undefined\<close> throws, and an absent property takes the default.
\<close>

record options =
  forceReload :: "bool option"

definition emptyOptions :: options where
  "emptyOptions = \<lparr>forceReload = None\<rparr>"

definition bindForceReload :: "options option \<Rightarrow> error + bool" where
  "bindForceReload arg =
     (case arg of
        None \<Rightarrow> Inl (TypeError ''Cannot destructure property forceReload of undefined'')
      | Some opt \<Rightarrow> Inr (case forceReload opt of None \<Rightarrow> False | Some b \<Rightarrow> b))"

text \<open>\<open>#loadConfig()\<close> and \<open>#initialize()\<close>; \<open>CONFIG_PATH\<close> is \<open>[''config.json'']\<close>.\<close>

definition loadConfig :: "api \<Rightarrow> content" where
  "loadConfig st =
     (let CONFIG_PATH = [''config.json''] in
      if existsPath (fs (world st)) CONFIG_PATH
      then (case lookup (fs (world st)) CONFIG_PATH of
              Some (File c) \<Rightarrow> c
            | _ \<Rightarrow> ''{}'')
      else apiConfig st)"

definition initialize :: "string runtime \<Rightarrow> api \<Rightarrow> api" where
  "initialize rt st =
     (case parserInitRejects rt of
        Some m \<Rightarrow> st\<lparr>initState := Settled False, events := events st @ [ErrorEvent (Rejected m)]\<rparr>
      | None \<Rightarrow>
          st\<lparr>apiConfig := loadConfig st, initState := Settled True,
             events := events st @ [Initialized]\<rparr>)"

text \<open>\<open>waitForInit()\<close>: awaiting the promise lets a pending initialisation run to its end.\<close>

definition waitForInit :: "string runtime \<Rightarrow> api \<Rightarrow> api" where
  "waitForInit rt st = (case initState st of Pending \<Rightarrow> initialize rt st | Settled _ \<Rightarrow> st)"

text \<open>
  \<open>getLanguage(lang, options = {})\<close>; a caller that passes no options passes
  \<open>emptyOptions\<close>.
\<close>

definition Api_getLanguage ::
  "string runtime \<Rightarrow> string \<Rightarrow> options \<Rightarrow> api \<Rightarrow> api \<times> (error + string language option)" where
  "Api_getLanguage rt lang opts st =
     (let st1 = waitForInit rt st in
      if lang = [] then (st1, Inl (Error ''Language identifier is required''))
      else if forceReload opts \<noteq> Some True \<and> languages st1 lang \<noteq> None
      then (st1, Inr (languages st1 lang))
      else
        (case Manager_getLanguage rt (world st1) lang of
           Inl e \<Rightarrow> (st1\<lparr>events := events st1 @ [ErrorEvent e]\<rparr>, Inr None)
         | Inr None \<Rightarrow> (st1, Inr None)
         | Inr (Some language) \<Rightarrow>
             (st1\<lparr>languages := (languages st1)(lang \<mapsto> language)\<rparr>, Inr (Some language))))"

text \<open>
  \<open>createParser(lang)\<close>. \<open>notAvailable\<close> is the error of its guard
  \<^verbatim>\<open>if (!language || !language.grammar)\<close>.
\<close>

definition notAvailable :: "string \<Rightarrow> error" where
  "notAvailable lang =
     Error (''Cannot create parser: Language '' @ lang @ '' not available or grammar not loaded'')"

definition Api_createParser ::
  "string runtime \<Rightarrow> string \<Rightarrow> api \<Rightarrow> api \<times> (error + string parser)" where
  "Api_createParser rt lang st =
     (let st1 = waitForInit rt st
      in case Api_getLanguage rt lang emptyOptions st1 of
           (st2, Inl e) \<Rightarrow> (st2, Inl e)
         | (st2, Inr None) \<Rightarrow> (st2, Inl (notAvailable lang))
         | (st2, Inr (Some language)) \<Rightarrow>
             (case grammar language of
                None \<Rightarrow> (st2, Inl (notAvailable lang))
              | Some g \<Rightarrow>
                  (let p = Parser (parsersMade st2) g;
                       st3 = st2\<lparr>parsersMade := Suc (parsersMade st2)\<rparr>
                   in case setLanguageRejects rt g of
                        Some m \<Rightarrow> (st3, Inl (Rejected m))
                      | None \<Rightarrow> (st3, Inr p))))"

text \<open>
  \<open>parse(lang, code, { forceReload = false })\<close>. The third parameter is a destructuring
  pattern without a default value of its own, so the parameters are bound, and the binding
  can throw, before the body and its \<^verbatim>\<open>try\<close> block run.
\<close>

definition Api_parse ::
  "string runtime \<Rightarrow> string \<Rightarrow> string \<Rightarrow> options option \<Rightarrow> api \<Rightarrow> api \<times> (error + string tree)" where
  "Api_parse rt lang code arg st =
     (case bindForceReload arg of
        Inl e \<Rightarrow> (st, Inl e)
      | Inr reload \<Rightarrow>
          (let st1 = waitForInit rt st in
           case (if \<not> reload then parsers st1 lang else None) of
             Some p \<Rightarrow> (st1, Inr (Tree p code))
           | None \<Rightarrow>
               (case Api_createParser rt lang st1 of
                  (st2, Inl e) \<Rightarrow> (st2\<lparr>events := events st2 @ [ErrorEvent e]\<rparr>, Inl e)
                | (st2, Inr p) \<Rightarrow> (st2\<lparr>parsers := (parsers st2)(lang \<mapsto> p)\<rparr>, Inr (Tree p code)))))"

text \<open>\<open>isLanguageAvailable\<close>, \<open>installLanguage\<close> and \<open>uninstallLanguage\<close> of the facade.\<close>

definition Api_isLanguageAvailable :: "api \<Rightarrow> string \<Rightarrow> bool" where
  "Api_isLanguageAvailable st lang = isLanguageAvailable (world st) lang"

definition Api_installLanguage :: "env \<Rightarrow> string \<Rightarrow> api \<Rightarrow> api \<times> (error + bool)" where
  "Api_installLanguage ev lang st =
     (case installLanguage ev lang (world st) of
        (w1, Inl e) \<Rightarrow> (st\<lparr>world := w1, events := events st @ [ErrorEvent e]\<rparr>, Inl e)
      | (w1, Inr success) \<Rightarrow>
          (st\<lparr>world := w1,
              events := events st @ (if success then [LanguageInstalled lang] else [])\<rparr>,
           Inr True))"

definition Api_uninstallLanguage :: "env \<Rightarrow> string \<Rightarrow> api \<Rightarrow> api \<times> (error + bool)" where
  "Api_uninstallLanguage ev lang st =
     (let st1 = st\<lparr>languages := (languages st)(lang := None)\<rparr> in
      case uninstallLanguage ev lang (world st1) of
        (w1, Inl e) \<Rightarrow> (st1\<lparr>world := w1, events := events st1 @ [ErrorEvent e]\<rparr>, Inr False)
      | (w1, Inr success) \<Rightarrow>
          (st1\<lparr>world := w1,
               events := events st1 @ (if success then [LanguageUninstalled lang] else [])\<rparr>,
           Inr success))"

section \<open>Examples, and conditions of the specification\<close>

text \<open>
  A runtime in which no content is an ArrayBuffer, \<^verbatim>\<open>new Uint8Array(v).buffer\<close> keeps a
  single content as it is, and the engine never rejects.
\<close>

definition rt0 :: "string runtime" where
  "rt0 = \<lparr>isArrayBuffer = (\<lambda>x. False), uint8Buffer = (\<lambda>v. case v of Value x \<Rightarrow> x | _ \<Rightarrow> []),
          truthy = (\<lambda>x. x \<noteq> []), loadRejects = (\<lambda>n b. None), parserInitRejects = None,
          setLanguageRejects = (\<lambda>g. None)\<rparr>"

text \<open>
  A registry that serves one package, \<open>tree-sitter-json\<close>, in the format of the CDN's
  \<open>?meta\<close> listing, and a host whose file system never rejects; \<open>evDownloadFails\<close> is the
  same with the download of the compiled module timing out, \<open>evDeleteFails\<close> the same with
  every deletion rejected.
\<close>

definition manifest0 :: meta where
  "manifest0 =
     \<lparr>files = [Some ''/tree-sitter.json'', Some ''/tree-sitter-json.wasm'',
               Some ''/queries/highlights.scm''],
      prefix = Some ''/'', version = Some ''1.0.0''\<rparr>"

definition ev0 :: env where
  "ev0 =
     \<lparr>createDirectoryRejects = (\<lambda>root dir nm. None),
      createFileRejects = (\<lambda>root dir nm. None),
      deleteRejects = (\<lambda>root p. None),
      httpGet = (\<lambda>url. Inr \<lparr>status = 200, data = ''manifest''\<rparr>),
      jsonParse = (\<lambda>d. Manifest manifest0),
      readRemote = (\<lambda>url type. Inr (Some ''content''))\<rparr>"


definition evDeleteFails :: env where
  "evDeleteFails = ev0\<lparr>deleteRejects := (\<lambda>root p. Some ''EBUSY'')\<rparr>"

text \<open>
  Three stores: one without packages, one with the package \<open>json\<close> installed, and one
  where the directory \<open>json\<close> exists and is empty. \<open>api0 w\<close> is the facade right after its
  construction over the store \<open>w\<close>.
\<close>

definition storeEmpty :: world where
  "storeEmpty = \<lparr>fs = Dir [(''config.json'', File ''{}'')], requests = []\<rparr>"

definition storeJson :: world where
  "storeJson =
     \<lparr>fs = Dir [(''config.json'', File ''{}''),
                (''json'', Dir [(''tree-sitter.json'', File ''{}''),
                                (''tree-sitter-json.wasm'', File ''wasm''),
                                (''queries'', Dir [(''highlights.scm'', File ''(string) @string'')])])],
      requests = []\<rparr>"

definition storeBare :: world where
  "storeBare = \<lparr>fs = Dir [(''config.json'', File ''{}''), (''json'', Dir [])], requests = []\<rparr>"

definition api0 :: "world \<Rightarrow> api" where
  "api0 w =
     \<lparr>world = w, loaderCalls = [], parsersMade = 0, parsers = Map.empty,
      languages = Map.empty, initState = Pending, apiConfig = ''{}'', events = []\<rparr>"






text \<open>
  The handle of \<open>json\<close> as the manager constructs it over \<open>storeJson\<close>, after its grammar
  has been loaded by the first invocation of the loader, and a facade that holds this
  handle in its cache.
\<close>

definition handleLoaded :: "string language" where
  "handleLoaded =
     Language ''json'' ''{}'' (Value ''tree-sitter/json/tree-sitter-json.wasm'')
       [(''highlights.scm'', ''(string) @string'')]
       (Some (Grammar 0 (Value ''tree-sitter/json/tree-sitter-json.wasm''))) (Some Map.empty)"


text \<open>
  The condition of the specification for an available language: the directory of \<open>lang\<close>
  exists in the store and contains the configuration document \<open>tree-sitter.json\<close>.
\<close>

definition specAvailable :: "world \<Rightarrow> string \<Rightarrow> bool" where
  "specAvailable w lang =
     (case lookup (fs w) [lang] of
        Some (Dir es) \<Rightarrow> map_of es ''tree-sitter.json'' \<noteq> None
      | _ \<Rightarrow> False)"

section \<open>Properties of the Language handle\<close>

subsection \<open>Derived names and the constructor\<close>






lemma extensionLoop_eq:
  "extensions h = Some E \<Longrightarrow>
   extensionLoop rt mf rest h =
     Inr (with_extensions
       (Some (E ++ map_of (rev (map (extensionOf rt (config h) (queries h))
                 (filter (\<lambda>(f, x). Some f \<noteq> mf) rest))))) h)"
proof (induction rest arbitrary: h E)
  case Nil
  then show ?case by (cases h) simp
next
  case (Cons fx rest)
  obtain f x where fx: "fx = (f, x)" by (cases fx)
  show ?case
  proof (cases "Some f = mf")
    case True
    with Cons fx show ?thesis by simp
  next
    case False
    let ?e = "Language (getNameFromFilename f) (config h) (toArrayBuffer rt (Value x)) (queries h) None None"
    let ?h = "with_extensions (Some (E(getNameFromFilename f \<mapsto> ?e))) h"
    have ext: "extensions ?h = Some (E(getNameFromFilename f \<mapsto> ?e))" by (cases h) simp
    have cq: "config ?h = config h" "queries ?h = queries h" by (cases h, simp)+
    have idem: "with_extensions e' ?h = with_extensions e' h" for e' by (cases h) simp
    have "extensionLoop rt mf (fx # rest) h = extensionLoop rt mf rest ?h"
      using False Cons.prems fx by (simp add: Let_def initFields_def)
    also have "\<dots> = Inr (with_extensions
       (Some (E(getNameFromFilename f \<mapsto> ?e) ++ map_of (rev (map (extensionOf rt (config h) (queries h))
                 (filter (\<lambda>(f, x). Some f \<noteq> mf) rest))))) h)"
      using Cons.IH [of ?h "E(getNameFromFilename f \<mapsto> ?e)"] ext by (simp only: cq idem)
    also have "E(getNameFromFilename f \<mapsto> ?e) ++ map_of (rev (map (extensionOf rt (config h) (queries h))
                 (filter (\<lambda>(f, x). Some f \<noteq> mf) rest)))
        = E ++ map_of (rev (map (extensionOf rt (config h) (queries h))
                 (filter (\<lambda>(f, x). Some f \<noteq> mf) (fx # rest))))"
      using False fx by (auto simp: extensionOf_def map_add_def fun_eq_iff split: option.splits)
    finally show ?thesis .
  qed
qed

lemma newLanguage_container:
  "newLanguage rt n c (Object m) q False =
     (let mf = findMainFile n (map fst m) in
      Inr (Language n c
        (case mf of None \<Rightarrow> Object m
         | Some f \<Rightarrow> if f \<noteq> [] then toArrayBuffer rt (getProp m f) else Object m) q None
        (Some (map_of (rev (map (extensionOf rt c q) (filter (\<lambda>(f, x). Some f \<noteq> mf) m)))))))"
proof -
  let ?mf = "findMainFile n (map fst m)"
  let ?w = "case ?mf of None \<Rightarrow> Object m
         | Some f \<Rightarrow> if f \<noteq> [] then toArrayBuffer rt (getProp m f) else Object m"
  let ?h1 = "Language n c ?w q None (Some Map.empty)"
  have "newLanguage rt n c (Object m) q False = extensionLoop rt ?mf m ?h1"
    by (simp add: newLanguage_def initFields_def initializeExtensions_def objectKeys_def
        objectEntries_def Let_def split: option.splits)
  also have "\<dots> = Inr (with_extensions (Some (Map.empty ++ map_of (rev (map (extensionOf rt (config ?h1) (queries ?h1))
                 (filter (\<lambda>(f, x). Some f \<noteq> ?mf) m))))) ?h1)"
    by (rule extensionLoop_eq) simp
  finally show ?thesis by (simp add: Let_def)
qed














subsection \<open>Loading and unloading the grammar\<close>

lemma wasm_with_grammar: "wasm (with_grammar g h) = wasm h" by (cases h) simp
lemma grammar_with_grammar: "grammar (with_grammar g h) = g" by (cases h) simp

lemma loadGrammar_cached: "grammar h = Some g \<Longrightarrow> loadGrammar rt h calls = (h, calls, Inr g)"
  by (simp add: loadGrammar_def)

lemma loadGrammar_fresh:
  "grammar h = None \<Longrightarrow> jsTruthy rt (wasm h) \<Longrightarrow>
   loadRejects rt (length calls) (toArrayBuffer rt (wasm h)) = None \<Longrightarrow>
   loadGrammar rt h calls =
     (with_grammar (Some (Grammar (length calls) (toArrayBuffer rt (wasm h)))) h,
      calls @ [toArrayBuffer rt (wasm h)],
      Inr (Grammar (length calls) (toArrayBuffer rt (wasm h))))"
  by (simp add: loadGrammar_def Let_def)

lemma loadGrammar_calls:
  "grammar h = None \<Longrightarrow> jsTruthy rt (wasm h) \<Longrightarrow>
   fst (snd (loadGrammar rt h calls)) = calls @ [toArrayBuffer rt (wasm h)]"
  by (simp add: loadGrammar_def Let_def split: option.splits)

lemma unloadGrammar_result: "snd (unloadGrammar x) = True \<and> grammar (fst (unloadGrammar x)) = None"
  by (simp add: unloadGrammar_def grammar_with_grammar)

text \<open>
  Claim C6 (loadGrammar is idempotent). For a handle whose module slot is truthy and whose
  load the engine accepts, the first \<open>loadGrammar()\<close> returns a grammar \<open>g\<close>, a second call
  returns the same \<open>g\<close> and leaves the handle and the list of loader invocations as they
  are, and the two calls together invoke the loader once if the handle was not loaded
  (not at all if it was). After \<open>unloadGrammar()\<close> the grammar is \<open>null\<close>, and the next
  \<open>loadGrammar()\<close> invokes the loader again on the buffer of the original module slot,
  returning the grammar of that new invocation when the engine accepts it.
  \<open>unloadGrammar()\<close> returns \<open>true\<close> on every handle and leaves the grammar \<open>null\<close>.
\<close>

theorem loadGrammar_idempotent:
  "(jsTruthy rt (wasm h) \<and> loadRejects rt (length calls) (toArrayBuffer rt (wasm h)) = None \<longrightarrow>
     (\<exists>h1 calls1 g.
        loadGrammar rt h calls = (h1, calls1, Inr g) \<and>
        loadGrammar rt h1 calls1 = (h1, calls1, Inr g) \<and>
        grammar h1 = Some g \<and>
        calls1 = (if isLoaded h then calls else calls @ [toArrayBuffer rt (wasm h)]) \<and>
        grammar (fst (unloadGrammar h1)) = None \<and>
        fst (snd (loadGrammar rt (fst (unloadGrammar h1)) calls1)) =
          calls1 @ [toArrayBuffer rt (wasm h)] \<and>
        (loadRejects rt (length calls1) (toArrayBuffer rt (wasm h)) = None \<longrightarrow>
           snd (snd (loadGrammar rt (fst (unloadGrammar h1)) calls1)) =
             Inr (Grammar (length calls1) (toArrayBuffer rt (wasm h))))))
   \<and> snd (unloadGrammar x) = True \<and> grammar (fst (unloadGrammar x)) = None"
proof -
  note A = unloadGrammar_result
  have B: "\<exists>h1 calls1 g.
        loadGrammar rt h calls = (h1, calls1, Inr g) \<and>
        loadGrammar rt h1 calls1 = (h1, calls1, Inr g) \<and>
        grammar h1 = Some g \<and>
        calls1 = (if isLoaded h then calls else calls @ [toArrayBuffer rt (wasm h)]) \<and>
        grammar (fst (unloadGrammar h1)) = None \<and>
        fst (snd (loadGrammar rt (fst (unloadGrammar h1)) calls1)) =
          calls1 @ [toArrayBuffer rt (wasm h)] \<and>
        (loadRejects rt (length calls1) (toArrayBuffer rt (wasm h)) = None \<longrightarrow>
           snd (snd (loadGrammar rt (fst (unloadGrammar h1)) calls1)) =
             Inr (Grammar (length calls1) (toArrayBuffer rt (wasm h))))"
    if t: "jsTruthy rt (wasm h)" and l: "loadRejects rt (length calls) (toArrayBuffer rt (wasm h)) = None"
  proof (cases "grammar h")
    case None
    let ?b = "toArrayBuffer rt (wasm h)"
    let ?g = "Grammar (length calls) ?b"
    let ?h1 = "with_grammar (Some ?g) h"
    have 1: "loadGrammar rt h calls = (?h1, calls @ [?b], Inr ?g)"
      using None t l by (rule loadGrammar_fresh)
    have 2: "loadGrammar rt ?h1 (calls @ [?b]) = (?h1, calls @ [?b], Inr ?g)"
      by (rule loadGrammar_cached) (simp add: grammar_with_grammar)
    have u: "fst (unloadGrammar ?h1) = with_grammar None ?h1" by (simp add: unloadGrammar_def)
    have 3: "fst (snd (loadGrammar rt (fst (unloadGrammar ?h1)) (calls @ [?b]))) = (calls @ [?b]) @ [?b]"
      using t loadGrammar_calls [of "with_grammar None ?h1" rt "calls @ [?b]"]
      by (simp add: u grammar_with_grammar wasm_with_grammar)
    have 4: "snd (snd (loadGrammar rt (fst (unloadGrammar ?h1)) (calls @ [?b]))) = Inr (Grammar (length (calls @ [?b])) ?b)"
      if "loadRejects rt (length (calls @ [?b])) ?b = None"
      using t that loadGrammar_fresh [of "with_grammar None ?h1" rt "calls @ [?b]"]
      by (simp add: u grammar_with_grammar wasm_with_grammar)
    show ?thesis
      using 1 2 3 4 None by (simp add: isLoaded_def grammar_with_grammar unloadGrammar_result)
  next
    case (Some g)
    have 1: "loadGrammar rt h calls = (h, calls, Inr g)" using Some by (rule loadGrammar_cached)
    have u: "fst (unloadGrammar h) = with_grammar None h" by (simp add: unloadGrammar_def)
    have 3: "fst (snd (loadGrammar rt (fst (unloadGrammar h)) calls)) = calls @ [toArrayBuffer rt (wasm h)]"
      using t loadGrammar_calls [of "with_grammar None h" rt calls]
      by (simp add: u grammar_with_grammar wasm_with_grammar)
    have 4: "snd (snd (loadGrammar rt (fst (unloadGrammar h)) calls)) = Inr (Grammar (length calls) (toArrayBuffer rt (wasm h)))"
      using t l loadGrammar_fresh [of "with_grammar None h" rt calls]
      by (simp add: u grammar_with_grammar wasm_with_grammar)
    show ?thesis using 1 3 4 Some by (simp add: isLoaded_def unloadGrammar_result)
  qed
  show ?thesis using unloadGrammar_result [of x] B by simp
qed


theorem loadGrammar_idempotent_witness:
  "jsTruthy rt0 (wasm (Language ''foo'' ''{}'' (Value ''A'') [] None None))
   \<and> loadRejects rt0 (length []) (toArrayBuffer rt0 (Value ''A'')) = None
   \<and> loadGrammar rt0 (Language ''foo'' ''{}'' (Value ''A'') [] None None) []
       = (Language ''foo'' ''{}'' (Value ''A'') [] (Some (Grammar 0 (Value ''A''))) None,
          [Value ''A''], Inr (Grammar 0 (Value ''A'')))
   \<and> loadGrammar rt0 (Language ''foo'' ''{}'' (Value ''A'') [] (Some (Grammar 0 (Value ''A''))) None)
         [Value ''A'']
       = (Language ''foo'' ''{}'' (Value ''A'') [] (Some (Grammar 0 (Value ''A''))) None,
          [Value ''A''], Inr (Grammar 0 (Value ''A'')))"
proof -
  let ?h = "Language ''foo'' ''{}'' (Value ''A'') [] None None"
  have t: "jsTruthy rt0 (wasm ?h)"
    by (simp add: jsTruthy_def rt0_def)
  have l: "loadRejects rt0 (length []) (toArrayBuffer rt0 (wasm ?h)) = None"
    by (simp add: rt0_def)
  have ab: "toArrayBuffer rt0 (Value ''A'') = Value ''A''"
    by (simp add: toArrayBuffer_def rt0_def)
  note G = loadGrammar_idempotent [where rt = rt0 and h = ?h and calls = "[]", THEN conjunct1,
      THEN mp, OF conjI [OF t l]]
  from G obtain h1 calls1 g where
    1: "loadGrammar rt0 ?h [] = (h1, calls1, Inr g)" and
    2: "loadGrammar rt0 h1 calls1 = (h1, calls1, Inr g)"
    by (elim exE conjE)
  have 3: "loadGrammar rt0 ?h [] =
      (Language ''foo'' ''{}'' (Value ''A'') [] (Some (Grammar 0 (Value ''A''))) None,
       [Value ''A''], Inr (Grammar 0 (Value ''A'')))"
    by (simp add: loadGrammar_def jsTruthy_def rt0_def toArrayBuffer_def Let_def)
  have "(h1, calls1, Inr g :: error + string grammar) =
      (Language ''foo'' ''{}'' (Value ''A'') [] (Some (Grammar 0 (Value ''A''))) None,
       [Value ''A''], Inr (Grammar 0 (Value ''A'')))"
    by (rule trans [OF 1 [symmetric] 3])
  then have "h1 = Language ''foo'' ''{}'' (Value ''A'') [] (Some (Grammar 0 (Value ''A''))) None"
      "calls1 = [Value ''A'']" "g = Grammar 0 (Value ''A'')"
    by simp_all
  with 2 3 t l ab show ?thesis by simp
qed

text \<open>
  Claim C9 (frame of unloadGrammar). \<open>unloadGrammar()\<close> changes the grammar slot only:
  name, config, module slot, queries and extensions of the handle are what they were; the
  extensions are the same mapping, so every nested handle is unchanged, its own grammar
  included.
\<close>

theorem unloadGrammar_frame:
  "fst (unloadGrammar h) = Language (name h) (config h) (wasm h) (queries h) None (extensions h)
   \<and> name (fst (unloadGrammar h)) = name h
   \<and> config (fst (unloadGrammar h)) = config h
   \<and> wasm (fst (unloadGrammar h)) = wasm h
   \<and> queries (fst (unloadGrammar h)) = queries h
   \<and> extensions (fst (unloadGrammar h)) = extensions h"
  by (cases h) (simp add: unloadGrammar_def)

text \<open>An extension that has loaded its own grammar keeps it when the parent unloads.\<close>

lemma unloadGrammar_keeps_extension:
  "extensions (fst (unloadGrammar
      (Language ''foo'' c (Value a) q (Some g)
         (Some [''foo-bar'' \<mapsto> Language ''foo-bar'' c (Value b) q (Some g') None]))))
   = Some [''foo-bar'' \<mapsto> Language ''foo-bar'' c (Value b) q (Some g') None]"
  by (simp add: unloadGrammar_def)

section \<open>Properties of the pattern matcher and of the store\<close>

lemma minimatch_exact: "CHR ''*'' \<notin> set pat \<Longrightarrow> minimatch s pat = (s = pat)"
  by (induction s pat rule: minimatch.induct) auto

lemma minimatch_segment:
  "CHR ''/'' \<notin> set pat \<Longrightarrow> minimatch s pat \<Longrightarrow> CHR ''/'' \<notin> set s"
  by (induction s pat rule: minimatch.induct) (auto split: if_splits)

lemma matches_directory_iff: "endsWith pat ''/'' \<Longrightarrow> matches path pat = (\<exists>rest. path = pat @ rest)"
  unfolding matches_def matchFile_def startsWith_def
  by (metis append_eq_conv_conj append_take_drop_id)

lemma matches_examples:
  "matches ''queries/highlights.scm'' ''queries/''"
  "\<not> matches ''a/b.wasm'' ''*.wasm''"
  "matches ''b.wasm'' ''*.wasm''"
  "matches ''tree-sitter.json'' ''tree-sitter.json''"
  "\<not> matches ''tree-sitter.json2'' ''tree-sitter.json''"
  by (simp_all add: matches_def matchFile_def startsWith_def endsWith_def)


text \<open>
  Claim C8 (pattern matcher). On the installer's three shapes of pattern:
  \<open>matches "queries/highlights.scm" "queries/"\<close> holds, \<open>matches "a/b.wasm" "*.wasm"\<close> does
  not while \<open>matches "b.wasm" "*.wasm"\<close> does, \<open>matches "tree-sitter.json" "tree-sitter.json"\<close>
  holds and \<open>matches "tree-sitter.json2" "tree-sitter.json"\<close> does not. In general a
  directory pattern matches exactly the paths that start with it, at any depth; a
  pattern without a separator matches no path that has one; and a pattern without \<open>*\<close>
  matches exactly itself. The directory test is the one of \<open>_download\<close>; the other two
  rest on \<open>minimatch\<close> as the specification describes it.
\<close>

theorem pattern_matcher:
  "matches ''queries/highlights.scm'' ''queries/''
   \<and> \<not> matches ''a/b.wasm'' ''*.wasm''
   \<and> matches ''b.wasm'' ''*.wasm''
   \<and> matches ''tree-sitter.json'' ''tree-sitter.json''
   \<and> \<not> matches ''tree-sitter.json2'' ''tree-sitter.json''
   \<and> (endsWith pat ''/'' \<longrightarrow> matches path pat = (\<exists>rest. path = pat @ rest))
   \<and> (\<not> endsWith pat ''/'' \<and> CHR ''/'' \<notin> set pat \<and> CHR ''/'' \<in> set path \<longrightarrow> \<not> matches path pat)
   \<and> (\<not> endsWith pat ''/'' \<and> CHR ''*'' \<notin> set pat \<longrightarrow> matches path pat = (path = pat))"
proof (intro conjI impI)
  show "matches path pat = (\<exists>rest. path = pat @ rest)" if "endsWith pat ''/''"
    using that by (rule matches_directory_iff)
  show "\<not> matches path pat"
    if "\<not> endsWith pat ''/'' \<and> CHR ''/'' \<notin> set pat \<and> CHR ''/'' \<in> set path"
    using that minimatch_segment [of pat path] by (auto simp: matches_def matchFile_def)
  show "matches path pat = (path = pat)" if "\<not> endsWith pat ''/'' \<and> CHR ''*'' \<notin> set pat"
    using that minimatch_exact [of pat path] by (simp add: matches_def matchFile_def)
qed (rule matches_examples)+

theorem pattern_matcher_witness:
  "endsWith ''queries/'' ''/'' \<and> matches ''queries/a/b.scm'' ''queries/''
   \<and> \<not> endsWith ''*.wasm'' ''/'' \<and> CHR ''/'' \<notin> set ''*.wasm'' \<and> CHR ''/'' \<in> set ''x/y/b.wasm''
   \<and> \<not> matches ''x/y/b.wasm'' ''*.wasm''
   \<and> \<not> endsWith ''tree-sitter.json'' ''/'' \<and> CHR ''*'' \<notin> set ''tree-sitter.json''
   \<and> \<not> matches ''tree-sitter.jso'' ''tree-sitter.json''"
proof -
  note P = pattern_matcher
  have a: "endsWith ''queries/'' ''/''" by (simp add: endsWith_def)
  have b: "\<not> endsWith ''*.wasm'' ''/'' \<and> CHR ''/'' \<notin> set ''*.wasm'' \<and> CHR ''/'' \<in> set ''x/y/b.wasm''"
    by (simp add: endsWith_def)
  have c: "\<not> endsWith ''tree-sitter.json'' ''/'' \<and> CHR ''*'' \<notin> set ''tree-sitter.json''"
    by (simp add: endsWith_def)
  have 1: "matches ''queries/a/b.scm'' ''queries/''"
    using P [where pat = "''queries/''" and path = "''queries/a/b.scm''", THEN conjunct2, THEN conjunct2,
        THEN conjunct2, THEN conjunct2, THEN conjunct2, THEN conjunct1, THEN mp, OF a]
    by simp
  have 2: "\<not> matches ''x/y/b.wasm'' ''*.wasm''"
    by (rule P [where pat = "''*.wasm''" and path = "''x/y/b.wasm''", THEN conjunct2, THEN conjunct2,
        THEN conjunct2, THEN conjunct2, THEN conjunct2, THEN conjunct2, THEN conjunct1, THEN mp, OF b])
  have 3: "\<not> matches ''tree-sitter.jso'' ''tree-sitter.json''"
    using P [where pat = "''tree-sitter.json''" and path = "''tree-sitter.jso''", THEN conjunct2,
        THEN conjunct2, THEN conjunct2, THEN conjunct2, THEN conjunct2, THEN conjunct2,
        THEN conjunct2, THEN mp, OF c]
    by simp
  from a b c 1 2 3 show ?thesis by simp
qed

lemma existsPath_root:
  "existsPath root [lang] = (\<exists>es. root = Dir es \<and> lang \<in> fst ` set es)"
  by (cases root) (auto simp: existsPath_def map_of_eq_None_iff dest: map_of_SomeD weak_map_of_SomeI
      split: option.splits intro: rev_image_eqI)

text \<open>
  Claim C5, as amended. For an id \<open>lang\<close> that is one path segment,
  \<open>isLanguageAvailable(lang)\<close> is true iff the storage directory has an entry named
  \<open>lang\<close>; the facade passes the answer of the manager through, for every id. The
  configuration document is not looked at: a package directory that holds it is
  available, and so is one that does not.
\<close>

theorem isLanguageAvailable_exists:
  "(segment lang \<longrightarrow>
      isLanguageAvailable w lang = (\<exists>es. fs w = Dir es \<and> lang \<in> fst ` set es))
   \<and> Api_isLanguageAvailable st lang = isLanguageAvailable (world st) lang
   \<and> (segment lang \<and> specAvailable w lang \<longrightarrow> isLanguageAvailable w lang)"
proof (intro conjI impI)
  show "isLanguageAvailable w lang = (\<exists>es. fs w = Dir es \<and> lang \<in> fst ` set es)"
    by (simp add: isLanguageAvailable_def existsPath_root)
  show "Api_isLanguageAvailable st lang = isLanguageAvailable (world st) lang"
    by (simp add: Api_isLanguageAvailable_def)
  show "isLanguageAvailable w lang" if "segment lang \<and> specAvailable w lang"
    using that
    by (auto simp: specAvailable_def isLanguageAvailable_def existsPath_def
        split: option.splits node.splits)
qed

theorem isLanguageAvailable_exists_witness:
  "segment ''json'' \<and> specAvailable storeJson ''json'' \<and> isLanguageAvailable storeJson ''json''
   \<and> (\<exists>es. fs storeJson = Dir es \<and> ''json'' \<in> fst ` set es)
   \<and> \<not> isLanguageAvailable storeEmpty ''json''"
proof -
  note A = isLanguageAvailable_exists
  have g: "segment ''json''"
    by (simp add: segment_def)
  have s: "specAvailable storeJson ''json''"
    by (simp add: specAvailable_def storeJson_def)
  from g s have gs: "segment ''json'' \<and> specAvailable storeJson ''json''" ..
  have 1: "isLanguageAvailable storeJson ''json''"
    by (rule A [THEN conjunct2, THEN conjunct2, THEN mp, OF gs])
  have 2: "isLanguageAvailable storeJson ''json''
      = (\<exists>es. fs storeJson = Dir es \<and> ''json'' \<in> fst ` set es)"
    by (rule A [THEN conjunct1, THEN mp, OF g])
  have 3: "isLanguageAvailable storeEmpty ''json''
      = (\<exists>es. fs storeEmpty = Dir es \<and> ''json'' \<in> fst ` set es)"
    by (rule A [THEN conjunct1, THEN mp, OF g])
  have 4: "\<not> isLanguageAvailable storeEmpty ''json''"
    unfolding 3 by (simp add: storeEmpty_def)
  from 1 2 have 5: "\<exists>es. fs storeJson = Dir es \<and> ''json'' \<in> fst ` set es" by simp
  from g s 1 5 4 show ?thesis by (intro conjI)
qed

text \<open>
  The claim as stated fails: \<open>json\<close> is one path segment, in the store \<open>storeBare\<close> the
  directory \<open>json\<close> exists and holds no \<open>tree-sitter.json\<close>, and \<open>isLanguageAvailable\<close>
  answers true.
\<close>

theorem isLanguageAvailable_counterexample:
  "segment ''json'' \<and> isLanguageAvailable storeBare ''json'' \<and> \<not> specAvailable storeBare ''json''"
  by (simp add: segment_def isLanguageAvailable_def specAvailable_def existsPath_def storeBare_def)

text \<open>
  Claim C10 (parse requires its options argument). \<open>parse(lang, code)\<close> without a third
  argument throws a TypeError and leaves the facade as it was: the initialisation is not
  awaited, no parser is looked up or created, nothing is parsed and no event is emitted.
  With an options object that does not ask for a reload, the call awaits the
  initialisation and answers from the cached parser.
\<close>

theorem parse_requires_options:
  "Api_parse rt lang code None st =
     (st, Inl (TypeError ''Cannot destructure property forceReload of undefined''))
   \<and> (parsers (waitForInit rt st) lang = Some p \<longrightarrow>
        Api_parse rt lang code (Some emptyOptions) st = (waitForInit rt st, Inr (Tree p code)))"
  by (simp add: Api_parse_def bindForceReload_def emptyOptions_def)

theorem parse_requires_options_witness:
  "parsers (waitForInit rt0 ((api0 storeJson)\<lparr>parsers := [''json'' \<mapsto> Parser 0 (Grammar 0 (Value ''w''))]\<rparr>)) ''json''
     = Some (Parser 0 (Grammar 0 (Value ''w'')))
   \<and> snd (Api_parse rt0 ''json'' ''[1]'' (Some emptyOptions)
        ((api0 storeJson)\<lparr>parsers := [''json'' \<mapsto> Parser 0 (Grammar 0 (Value ''w''))]\<rparr>))
     = Inr (Tree (Parser 0 (Grammar 0 (Value ''w''))) ''[1]'')
   \<and> snd (Api_parse rt0 ''json'' ''[1]'' None
        ((api0 storeJson)\<lparr>parsers := [''json'' \<mapsto> Parser 0 (Grammar 0 (Value ''w''))]\<rparr>))
     = Inl (TypeError ''Cannot destructure property forceReload of undefined'')"
proof -
  let ?st = "(api0 storeJson)\<lparr>parsers := [''json'' \<mapsto> Parser 0 (Grammar 0 (Value ''w''))]\<rparr>"
  have p: "parsers (waitForInit rt0 ?st) ''json'' = Some (Parser 0 (Grammar 0 (Value ''w'')))"
    by (simp add: waitForInit_def initialize_def api0_def rt0_def)
  note P = parse_requires_options [where rt = rt0 and st = ?st and lang = "''json''"]
  from P [THEN conjunct2, THEN mp, OF p, of "''[1]''"] P [THEN conjunct1, of "''[1]''"] p
  show ?thesis by simp
qed

section \<open>Properties of install\<close>

















lemma absent_below: "\<not> existsPath r [lang] \<Longrightarrow> lookup r (lang # p) = None"
  by (cases r) (auto simp: existsPath_def split: option.splits)













text \<open>
  The run without a failure, for comparison: the three files of the manifest are written,
  the queries under their directory, from the version the manifest names.
\<close>

lemma install_json_succeeds:
  "installLanguage ev0 ''json'' storeEmpty =
     (\<lparr>fs = Dir [(''config.json'', File ''{}''),
                 (''json'', Dir [(''tree-sitter.json'', File ''content''),
                                 (''tree-sitter-json.wasm'', File ''content''),
                                 (''queries'', Dir [(''highlights.scm'', File ''content'')])])],
       requests =
         [''https://unpkg.com/tree-sitter-json@latest?meta'',
          ''https://unpkg.com/tree-sitter-json@1.0.0/tree-sitter.json'',
          ''https://unpkg.com/tree-sitter-json@1.0.0/tree-sitter-json.wasm'',
          ''https://unpkg.com/tree-sitter-json@1.0.0/queries/highlights.scm'']\<rparr>,
      Inr True)"
  by (simp add: installLanguage_def existsPath_def storeEmpty_def createDirectory_def
      ev0_def download_def fetch_def buildUrl_def urlJoin_def CDN_URL_def
      endsWith_def startsWith_def manifest0_def matchingFiles_def metaVersion_def matchFile_def
      downloadFile_def basename_def extname_def getFileType_def createFile_def Let_def)

lemma install_existing_manager:
  "existsPath (fs w) [lang] \<Longrightarrow> installLanguage ev lang w = (w, Inr False)"
  by (simp add: installLanguage_def)

lemma install_existing_api:
  "existsPath (fs (world st)) [lang] \<Longrightarrow> Api_installLanguage ev lang st = (st, Inr True)"
  by (simp add: Api_installLanguage_def install_existing_manager)

text \<open>
  Claim C2 (install on an installed language). When the package directory exists, the
  manager's \<open>installLanguage\<close> returns false and leaves the store and the list of network
  requests as they are. The facade's \<open>installLanguage\<close> leaves its whole state as it is
  too, emits no event, and returns true: the answer of the manager is not passed on.
\<close>

theorem install_existing:
  "existsPath (fs (world st)) [lang] \<longrightarrow>
     installLanguage ev lang (world st) = (world st, Inr False)
     \<and> Api_installLanguage ev lang st = (st, Inr True)"
  by (simp add: install_existing_manager install_existing_api)

theorem install_existing_witness:
  "existsPath (fs (world (api0 storeJson))) [''json'']
   \<and> installLanguage ev0 ''json'' storeJson = (storeJson, Inr False)
   \<and> Api_installLanguage ev0 ''json'' (api0 storeJson) = (api0 storeJson, Inr True)"
proof -
  have e: "existsPath (fs (world (api0 storeJson))) [''json'']"
    by (simp add: api0_def storeJson_def existsPath_def)
  have w: "world (api0 storeJson) = storeJson" by (simp add: api0_def)
  from install_existing [of "api0 storeJson" "''json''" ev0, THEN mp, OF e] e w
  show ?thesis by simp
qed

section \<open>Properties of createParser and of uninstall\<close>











text \<open>
  The handle \<open>handleLoaded\<close> is the one the manager constructs over \<open>storeJson\<close>, once
  the caller has loaded its grammar.
\<close>

lemma handleLoaded_is_loaded:
  "\<exists>h. Manager_getLanguage rt0 storeJson ''json'' = Inr (Some h)
       \<and> loadGrammar rt0 h [] =
           (handleLoaded, [Value ''tree-sitter/json/tree-sitter-json.wasm''],
            Inr (Grammar 0 (Value ''tree-sitter/json/tree-sitter-json.wasm'')))"
  by (simp add: Manager_getLanguage_def loadPackage_def existsPath_def storeJson_def lsDir_def
      readNode_def readQueries_def isDirectoryNode_def newLanguage_container Let_def
      endsWith_def startsWith_def urlOf_def urlJoin_def findMainFile_def getNameFromFilename_def
      stripWasmExt_def getProp_def toArrayBuffer_def rt0_def loadGrammar_def jsTruthy_def
      handleLoaded_def)




lemma uninstall_absent:
  "\<not> existsPath (fs w) [lang] \<Longrightarrow> uninstallLanguage ev lang w = (w, Inr False)"
  by (simp add: uninstallLanguage_def)

lemma uninstall_deletes:
  assumes e: "existsPath (fs w) [lang]" and d: "deleteRejects ev (fs w) [lang] = None"
  shows "\<exists>w'. uninstallLanguage ev lang w = (w', Inr True) \<and> \<not> existsPath (fs w') [lang]
      \<and> (\<forall>p. lookup (fs w') (lang # p) = None) \<and> requests w' = requests w
      \<and> (\<forall>k p. k \<noteq> lang \<longrightarrow> lookup (fs w') (k # p) = lookup (fs w) (k # p))"
proof -
  from e obtain es where es: "fs w = Dir es" and m: "map_of es lang \<noteq> None"
    by (cases "fs w") (auto simp: existsPath_def split: option.splits)
  let ?w = "w\<lparr>fs := Dir (AList.delete lang es)\<rparr>"
  have u: "uninstallLanguage ev lang w = (?w, Inr True)"
    using e d es m by (auto simp: uninstallLanguage_def deletePath_def)
  have a: "\<not> existsPath (fs ?w) [lang]"
    by (simp add: existsPath_root AList.delete_notin_dom)
  have b: "\<forall>p. lookup (fs ?w) (lang # p) = None"
    using absent_below [OF a] by blast
  have c: "\<forall>k p. k \<noteq> lang \<longrightarrow> lookup (fs ?w) (k # p) = lookup (fs w) (k # p)"
    by (simp add: es)
  from u a b c show ?thesis by (intro exI [of _ ?w]) simp
qed

lemma uninstall_delete_fails:
  assumes e: "existsPath (fs w) [lang]" and d: "deleteRejects ev (fs w) [lang] \<noteq> None"
  shows "\<exists>err. uninstallLanguage ev lang w = (w, Inl err)"
  using e d by (auto simp: uninstallLanguage_def deletePath_def)

lemma Api_uninstall_result:
  "snd (Api_uninstallLanguage ev lang st) =
       Inr (existsPath (fs (world st)) [lang] \<and> deleteRejects ev (fs (world st)) [lang] = None)
     \<and> languages (fst (Api_uninstallLanguage ev lang st)) lang = None"
proof (cases "existsPath (fs (world st)) [lang]")
  case False
  then show ?thesis
    by (simp add: Api_uninstallLanguage_def uninstall_absent Let_def)
next
  case True
  show ?thesis
  proof (cases "deleteRejects ev (fs (world st)) [lang]")
    case None
    from uninstall_deletes [OF True None] obtain w' where
      "uninstallLanguage ev lang (world st) = (w', Inr True)" by blast
    with True None show ?thesis
      by (simp add: Api_uninstallLanguage_def Let_def)
  next
    case (Some m)
    then have "deleteRejects ev (fs (world st)) [lang] \<noteq> None" by simp
    from uninstall_delete_fails [OF True this] obtain err where
      "uninstallLanguage ev lang (world st) = (world st, Inl err)" by blast
    with True Some show ?thesis
      by (simp add: Api_uninstallLanguage_def Let_def)
  qed
qed

text \<open>
  Claim C7, as amended, for an id \<open>lang\<close> that is one path segment. The manager's
  \<open>uninstallLanguage(lang)\<close> returns false when no package directory exists; when one
  exists and the host deletes it, the directory and all below it are gone, every other
  entry of the store is as before, and it returns true; when the host rejects the
  deletion the call ends in an error and the store is unchanged. The facade's
  \<open>uninstallLanguage(lang)\<close> returns true iff the directory existed and the host deleted
  it, and false otherwise, also when the deletion was rejected, where it emits an error
  event. For every id the facade evicts the cached handle and does not end in an error.
\<close>

theorem uninstall_behaviour:
  "(segment lang \<and> \<not> existsPath (fs w) [lang] \<longrightarrow>
        uninstallLanguage ev lang w = (w, Inr False))
   \<and> (segment lang \<and> existsPath (fs w) [lang] \<and> deleteRejects ev (fs w) [lang] = None \<longrightarrow>
        (\<exists>w'. uninstallLanguage ev lang w = (w', Inr True) \<and> \<not> existsPath (fs w') [lang]
           \<and> (\<forall>p. lookup (fs w') (lang # p) = None) \<and> requests w' = requests w
           \<and> (\<forall>k p. k \<noteq> lang \<longrightarrow> lookup (fs w') (k # p) = lookup (fs w) (k # p))))
   \<and> (segment lang \<and> existsPath (fs w) [lang] \<and> deleteRejects ev (fs w) [lang] \<noteq> None \<longrightarrow>
        (\<exists>err. uninstallLanguage ev lang w = (w, Inl err)))
   \<and> (segment lang \<longrightarrow>
        snd (Api_uninstallLanguage ev lang st) =
          Inr (existsPath (fs (world st)) [lang] \<and> deleteRejects ev (fs (world st)) [lang] = None))
   \<and> languages (fst (Api_uninstallLanguage ev lang st)) lang = None
   \<and> (\<forall>err. snd (Api_uninstallLanguage ev lang st) \<noteq> Inl err)
   \<and> (segment lang \<and> existsPath (fs (world st)) [lang]
        \<and> deleteRejects ev (fs (world st)) [lang] \<noteq> None \<longrightarrow>
        (\<exists>err. events (fst (Api_uninstallLanguage ev lang st)) = events st @ [ErrorEvent err]))"
proof (intro conjI impI allI)
  show "\<exists>err. events (fst (Api_uninstallLanguage ev lang st)) = events st @ [ErrorEvent err]"
    if "segment lang \<and> existsPath (fs (world st)) [lang]
        \<and> deleteRejects ev (fs (world st)) [lang] \<noteq> None"
  proof -
    from that uninstall_delete_fails [of "world st" lang ev] obtain err where
      "uninstallLanguage ev lang (world st) = (world st, Inl err)" by blast
    then show ?thesis by (simp add: Api_uninstallLanguage_def Let_def)
  qed
  show "uninstallLanguage ev lang w = (w, Inr False)"
    if "segment lang \<and> \<not> existsPath (fs w) [lang]"
    using that by (intro uninstall_absent) simp
  show "\<exists>w'. uninstallLanguage ev lang w = (w', Inr True) \<and> \<not> existsPath (fs w') [lang]
           \<and> (\<forall>p. lookup (fs w') (lang # p) = None) \<and> requests w' = requests w
           \<and> (\<forall>k p. k \<noteq> lang \<longrightarrow> lookup (fs w') (k # p) = lookup (fs w) (k # p))"
    if "segment lang \<and> existsPath (fs w) [lang] \<and> deleteRejects ev (fs w) [lang] = None"
    using that uninstall_deletes [of w lang ev] by blast
  show "\<exists>err. uninstallLanguage ev lang w = (w, Inl err)"
    if "segment lang \<and> existsPath (fs w) [lang] \<and> deleteRejects ev (fs w) [lang] \<noteq> None"
    using that uninstall_delete_fails [of w lang ev] by blast
  show "snd (Api_uninstallLanguage ev lang st) =
        Inr (existsPath (fs (world st)) [lang] \<and> deleteRejects ev (fs (world st)) [lang] = None)"
    if "segment lang"
    by (rule Api_uninstall_result [THEN conjunct1])
  show "languages (fst (Api_uninstallLanguage ev lang st)) lang = None"
    by (rule Api_uninstall_result [THEN conjunct2])
  show "snd (Api_uninstallLanguage ev lang st) \<noteq> Inl err" for err
    by (simp add: Api_uninstall_result [THEN conjunct1])
qed

theorem uninstall_behaviour_witness:
  "segment ''json''
   \<and> \<not> existsPath (fs storeEmpty) [''json''] \<and> uninstallLanguage ev0 ''json'' storeEmpty = (storeEmpty, Inr False)
   \<and> existsPath (fs storeJson) [''json''] \<and> deleteRejects ev0 (fs storeJson) [''json''] = None
   \<and> uninstallLanguage ev0 ''json'' storeJson = (storeEmpty, Inr True)
   \<and> deleteRejects evDeleteFails (fs storeJson) [''json''] \<noteq> None
   \<and> (\<exists>err. uninstallLanguage evDeleteFails ''json'' storeJson = (storeJson, Inl err))
   \<and> (\<exists>err. events (fst (Api_uninstallLanguage evDeleteFails ''json'' (api0 storeJson))) =
          [ErrorEvent err])
   \<and> snd (Api_uninstallLanguage evDeleteFails ''json'' (api0 storeJson)) = Inr False"
proof -
  note U = uninstall_behaviour
  have g: "segment ''json''"
    by (simp add: segment_def)
  have a: "\<not> existsPath (fs storeEmpty) [''json'']"
    by (simp add: existsPath_def storeEmpty_def)
  have b: "existsPath (fs storeJson) [''json''] \<and> deleteRejects ev0 (fs storeJson) [''json''] = None"
    by (simp add: existsPath_def storeJson_def ev0_def)
  have c: "existsPath (fs storeJson) [''json''] \<and> deleteRejects evDeleteFails (fs storeJson) [''json''] \<noteq> None"
    by (simp add: existsPath_def storeJson_def evDeleteFails_def ev0_def)
  from g a have ga: "segment ''json'' \<and> \<not> existsPath (fs storeEmpty) [''json'']" ..
  from g b have gb: "segment ''json'' \<and> existsPath (fs storeJson) [''json'']
      \<and> deleteRejects ev0 (fs storeJson) [''json''] = None" ..
  from g c have gc: "segment ''json'' \<and> existsPath (fs storeJson) [''json'']
      \<and> deleteRejects evDeleteFails (fs storeJson) [''json''] \<noteq> None" ..
  have 1: "uninstallLanguage ev0 ''json'' storeEmpty = (storeEmpty, Inr False)"
    by (rule U [THEN conjunct1, THEN mp, OF ga])
  from U [of "''json''" storeJson ev0, THEN conjunct2, THEN conjunct1, THEN mp, OF gb]
  obtain w' where "uninstallLanguage ev0 ''json'' storeJson = (w', Inr True)" by blast
  moreover have "fst (uninstallLanguage ev0 ''json'' storeJson) = storeEmpty"
    by (simp add: uninstallLanguage_def existsPath_def storeJson_def storeEmpty_def ev0_def deletePath_def)
  ultimately have 2: "uninstallLanguage ev0 ''json'' storeJson = (storeEmpty, Inr True)" by simp
  have 3: "\<exists>err. uninstallLanguage evDeleteFails ''json'' storeJson = (storeJson, Inl err)"
    by (rule U [THEN conjunct2, THEN conjunct2, THEN conjunct1, THEN mp, OF gc])
  have c': "segment ''json'' \<and> existsPath (fs (world (api0 storeJson))) [''json'']
      \<and> deleteRejects evDeleteFails (fs (world (api0 storeJson))) [''json''] \<noteq> None"
    using gc by (simp add: api0_def)
  from U [where st = "api0 storeJson" and lang = "''json''" and ev = evDeleteFails, THEN conjunct2, THEN conjunct2,
      THEN conjunct2, THEN conjunct2, THEN conjunct2, THEN conjunct2, THEN mp, OF c']
  have 4: "\<exists>err. events (fst (Api_uninstallLanguage evDeleteFails ''json'' (api0 storeJson))) =
          [ErrorEvent err]"
    by (simp add: api0_def)
  from U [where st = "api0 storeJson" and lang = "''json''" and ev = evDeleteFails, THEN conjunct2, THEN conjunct2,
      THEN conjunct2, THEN conjunct1, THEN mp, OF g]
  have 5: "snd (Api_uninstallLanguage evDeleteFails ''json'' (api0 storeJson)) = Inr False"
    using c by (simp add: api0_def)
  from g a b c 1 2 3 4 5 show ?thesis by simp
qed

text \<open>
  The claim as stated fails: \<open>json\<close> is one path segment, and with the package \<open>json\<close>
  installed and a host that rejects the deletion with \<open>EBUSY\<close>, the manager does not end
  in that rejection, and the facade returns false with the directory still in place.
\<close>

theorem uninstall_counterexample:
  "segment ''json''
   \<and> existsPath (fs storeJson) [''json'']
   \<and> deleteRejects evDeleteFails (fs storeJson) [''json''] = Some ''EBUSY''
   \<and> snd (uninstallLanguage evDeleteFails ''json'' storeJson) \<noteq> Inl (Rejected ''EBUSY'')
   \<and> snd (Api_uninstallLanguage evDeleteFails ''json'' (api0 storeJson)) = Inr False
   \<and> existsPath (fs (world (fst (Api_uninstallLanguage evDeleteFails ''json'' (api0 storeJson))))) [''json'']"
  by (simp add: segment_def existsPath_def storeJson_def evDeleteFails_def ev0_def
      uninstallLanguage_def deletePath_def Api_uninstallLanguage_def api0_def Let_def)

end
